theory Spec2Isabelle
  imports Main "HOL-Library.AList" "HOL-Library.Word"
begin

section \<open>Bee identifiers\<close>

record BeeID =
  HiveID :: string
  AppName :: string
  ID :: "64 word"
  Detached :: bool

section \<open>Errors and outcomes\<close>

text \<open>
  Every error value the modelled functions create, one constructor per
  \<^verbatim>\<open>errors.New\<close> / \<^verbatim>\<open>fmt.Errorf\<close> site; \<open>ErrProxy\<close> is an error that
  comes back from a proxy call.
\<close>

datatype error =
    ErrTxAlreadyStarted
  | ErrNoActiveTx
  | ErrKeyDoesNotExist
  | ErrNoSuchKey
  | ErrSlaveExists BeeID
  | ErrTxNotFound nat
  | ErrUnknownCmd
  | ErrCannotReply
  | ErrProxy string

text \<open>
  A Go call either returns, panics, or blocks for ever (a send on a nil channel).
\<close>

datatype 'a outcome = Returns 'a | Panics | Blocks

section \<open>The in-memory state (src/bh/inmem.go)\<close>

type_synonym DictName = string
type_synonym Key = string
type_synonym Value = string

text \<open>
  A Go map is an association list with distinct keys: \<open>m[k]\<close> is \<^const>\<open>map_of\<close>,
  \<open>m[k] = v\<close> is \<^const>\<open>AList.update\<close>, \<open>delete(m, k)\<close> is \<^const>\<open>AList.delete\<close>,
  \<open>len(m)\<close> is \<^const>\<open>length\<close>, and \<open>range m\<close> walks the list. Go leaves the order
  of \<open>range\<close> open; the order of the list stands for the order the runtime picks.
\<close>

type_synonym ('k, 'v) gomap = "('k \<times> 'v) list"

text \<open>
  Modelled from the spec: the declarations of \<open>StateOp\<close>, \<open>OpType\<close>, \<open>Put\<close> and \<open>Del\<close>
  are not among the sources. The spec gives an operation as
  \<open>{Put|Del, DictName, Key, Value?}\<close>, and the sources build it with the fields
  \<open>T\<close>, \<open>D\<close>, \<open>K\<close>, \<open>V\<close>. \<open>OtherT\<close> stands for any further value of the type: the
  \<open>switch\<close> statements over \<open>T\<close> have no default branch.
\<close>

datatype OpType = Put | Del | OtherT

record StateOp =
  T :: OpType
  D :: DictName
  K :: Key
  V :: Value

record inMemDict =
  DictName :: DictName
  Dict :: "(Key, Value) gomap"

text \<open>
  \<open>inMemStagedDict.dict\<close> is a pointer to an \<open>inMemDict\<close>. Every \<open>inMemDict\<close> is
  created by \<open>inMemoryState.inMemDict\<close> and stored in \<open>Dicts\<close> under its name, where it
  stays, so the pointer is modelled as that name.
\<close>

record inMemStagedDict =
  dict :: DictName
  ops :: "(Key, StateOp) gomap"

text \<open>
  \<open>inMemoryTx.stage\<close> maps a name to a pointer to an \<open>inMemStagedDict\<close>. The objects
  allocated by \<open>inMemoryTx.Dict\<close> live in \<open>heap\<close>, and a pointer is an index into it: a
  caller keeps the pointer it got from \<open>Dict\<close> also after a later \<open>Dict\<close> call has put a
  new object into \<open>stage\<close> under the same name. The back pointer \<open>inMemoryTx.state\<close> is
  the state that holds the transaction.
\<close>

type_synonym ptr = nat

record inMemoryTx =
  stage :: "(DictName, ptr) gomap"

record inMemoryState =
  Name :: string
  Dicts :: "(DictName, inMemDict) gomap"
  tx :: "inMemoryTx option"
  heap :: "inMemStagedDict list"

text \<open>The value of the interface \<open>Dict\<close>: a \<open>*inMemDict\<close> or a \<open>*inMemStagedDict\<close>.\<close>

datatype DictRef = InMemRef DictName | StagedRef ptr

definition inMemoryState_newTransaction :: "inMemoryState \<Rightarrow> inMemoryTx" where
  "inMemoryState_newTransaction s = \<lparr>stage = []\<rparr>"

definition inMemoryState_BeginTx :: "inMemoryState \<Rightarrow> error option \<times> inMemoryState" where
  "inMemoryState_BeginTx s =
     (if tx s \<noteq> None then (Some ErrTxAlreadyStarted, s)
      else (None, s\<lparr>tx := Some (inMemoryState_newTransaction s)\<rparr>))"

definition inMemoryState_inMemDict :: "DictName \<Rightarrow> inMemoryState \<Rightarrow> DictName \<times> inMemoryState" where
  "inMemoryState_inMemDict name s =
     (case map_of (Dicts s) name of
        Some d \<Rightarrow> (name, s)
      | None \<Rightarrow> (name, s\<lparr>Dicts := AList.update name \<lparr>DictName = name, Dict = []\<rparr> (Dicts s)\<rparr>))"

subsection \<open>inMemDict\<close>

definition inMemDict_Name :: "inMemDict \<Rightarrow> DictName" where
  "inMemDict_Name d = DictName d"

definition inMemDict_Get :: "inMemDict \<Rightarrow> Key \<Rightarrow> error + Value" where
  "inMemDict_Get d k =
     (case map_of (Dict d) k of None \<Rightarrow> Inl ErrKeyDoesNotExist | Some v \<Rightarrow> Inr v)"

definition inMemDict_Put :: "inMemDict \<Rightarrow> Key \<Rightarrow> Value \<Rightarrow> inMemDict" where
  "inMemDict_Put d k v = d\<lparr>Dict := AList.update k v (Dict d)\<rparr>"

definition inMemDict_Del :: "inMemDict \<Rightarrow> Key \<Rightarrow> inMemDict" where
  "inMemDict_Del d k = d\<lparr>Dict := AList.delete k (Dict d)\<rparr>"

text \<open>\<open>ForEach\<close> is modelled by the list of the calls \<open>f(k, v)\<close> it makes, in order.\<close>

definition inMemDict_ForEach :: "inMemDict \<Rightarrow> (Key \<times> Value) list" where
  "inMemDict_ForEach d = Dict d"

subsection \<open>inMemStagedDict\<close>

text \<open>
  The methods of a staged dict read the \<open>inMemDict\<close> behind \<open>d.dict\<close>; it is passed as
  the argument \<open>u\<close>.
\<close>

definition inMemStagedDict_Name :: "inMemDict \<Rightarrow> inMemStagedDict \<Rightarrow> DictName" where
  "inMemStagedDict_Name u d = inMemDict_Name u"

definition inMemStagedDict_Put :: "inMemDict \<Rightarrow> inMemStagedDict \<Rightarrow> Key \<Rightarrow> Value \<Rightarrow> inMemStagedDict" where
  "inMemStagedDict_Put u d k v =
     d\<lparr>ops := AList.update k \<lparr>T = Put, D = inMemDict_Name u, K = k, V = v\<rparr> (ops d)\<rparr>"

text \<open>The value left out of the \<open>StateOp\<close> literal in \<open>Del\<close> is the nil value, here the empty string.\<close>

definition inMemStagedDict_Del :: "inMemDict \<Rightarrow> inMemStagedDict \<Rightarrow> Key \<Rightarrow> inMemStagedDict" where
  "inMemStagedDict_Del u d k =
     d\<lparr>ops := AList.update k \<lparr>T = Del, D = inMemDict_Name u, K = k, V = []\<rparr> (ops d)\<rparr>"

definition inMemStagedDict_Get :: "inMemDict \<Rightarrow> inMemStagedDict \<Rightarrow> Key \<Rightarrow> error + Value" where
  "inMemStagedDict_Get u d k =
     (case map_of (ops d) k of
        Some op \<Rightarrow>
          (case T op of
             Put \<Rightarrow> Inr (V op)
           | Del \<Rightarrow> Inl ErrNoSuchKey
           | OtherT \<Rightarrow> inMemDict_Get u k)
      | None \<Rightarrow> inMemDict_Get u k)"

text \<open>The closure that \<open>inMemStagedDict.ForEach\<close> hands to the \<open>ForEach\<close> of the underlying dict.\<close>

definition inMemStagedDict_visit :: "inMemStagedDict \<Rightarrow> Key \<times> Value \<Rightarrow> (Key \<times> Value) list" where
  "inMemStagedDict_visit d kv =
     (case map_of (ops d) (fst kv) of
        Some op \<Rightarrow>
          (case T op of
             Put \<Rightarrow> [(K op, V op)]
           | Del \<Rightarrow> []
           | OtherT \<Rightarrow> [kv])
      | None \<Rightarrow> [kv])"

definition inMemStagedDict_ForEach :: "inMemDict \<Rightarrow> inMemStagedDict \<Rightarrow> (Key \<times> Value) list" where
  "inMemStagedDict_ForEach u d = concat (map (inMemStagedDict_visit d) (inMemDict_ForEach u))"

subsection \<open>inMemoryTx and the methods of the state\<close>

text \<open>
  \<open>inMemoryTx.Dict\<close> allocates a new staged dict with no operations on every call and
  stores the pointer in \<open>stage\<close>, in place of the one a former call stored there.
\<close>

definition inMemoryTx_Dict :: "DictName \<Rightarrow> inMemoryTx \<Rightarrow> inMemoryState \<Rightarrow> ptr \<times> inMemoryState" where
  "inMemoryTx_Dict n t s =
     (let (u, s1) = inMemoryState_inMemDict n s;
          d = \<lparr>dict = u, ops = []\<rparr>;
          p = length (heap s1)
      in (p, s1\<lparr>heap := heap s1 @ [d], tx := Some (t\<lparr>stage := AList.update n p (stage t)\<rparr>)\<rparr>))"

definition inMemoryState_Dict :: "DictName \<Rightarrow> inMemoryState \<Rightarrow> DictRef \<times> inMemoryState" where
  "inMemoryState_Dict name s =
     (case tx s of
        Some t \<Rightarrow> (let (p, s1) = inMemoryTx_Dict name t s in (StagedRef p, s1))
      | None \<Rightarrow> (let (u, s1) = inMemoryState_inMemDict name s in (InMemRef u, s1)))"

text \<open>
  The methods of the interface \<open>Dict\<close>, called through a reference. A reference always
  points to an object, so the branches for a name that is not in \<open>Dicts\<close> and for an index
  beyond \<open>heap\<close> are never taken from a reference that \<open>inMemoryState_Dict\<close> returned; they
  leave the state as it is, and read as a key that does not exist.
\<close>

definition Dict_Put :: "DictRef \<Rightarrow> Key \<Rightarrow> Value \<Rightarrow> inMemoryState \<Rightarrow> inMemoryState" where
  "Dict_Put r k v s =
     (case r of
        InMemRef n \<Rightarrow>
          (case map_of (Dicts s) n of
             Some u \<Rightarrow> s\<lparr>Dicts := AList.update n (inMemDict_Put u k v) (Dicts s)\<rparr>
           | None \<Rightarrow> s)
      | StagedRef p \<Rightarrow>
          (if p < length (heap s) then
             (case map_of (Dicts s) (dict (heap s ! p)) of
                Some u \<Rightarrow> s\<lparr>heap := (heap s)[p := inMemStagedDict_Put u (heap s ! p) k v]\<rparr>
              | None \<Rightarrow> s)
           else s))"

definition Dict_Del :: "DictRef \<Rightarrow> Key \<Rightarrow> inMemoryState \<Rightarrow> inMemoryState" where
  "Dict_Del r k s =
     (case r of
        InMemRef n \<Rightarrow>
          (case map_of (Dicts s) n of
             Some u \<Rightarrow> s\<lparr>Dicts := AList.update n (inMemDict_Del u k) (Dicts s)\<rparr>
           | None \<Rightarrow> s)
      | StagedRef p \<Rightarrow>
          (if p < length (heap s) then
             (case map_of (Dicts s) (dict (heap s ! p)) of
                Some u \<Rightarrow> s\<lparr>heap := (heap s)[p := inMemStagedDict_Del u (heap s ! p) k]\<rparr>
              | None \<Rightarrow> s)
           else s))"

definition Dict_Get :: "DictRef \<Rightarrow> Key \<Rightarrow> inMemoryState \<Rightarrow> error + Value" where
  "Dict_Get r k s =
     (case r of
        InMemRef n \<Rightarrow>
          (case map_of (Dicts s) n of
             Some u \<Rightarrow> inMemDict_Get u k
           | None \<Rightarrow> Inl ErrKeyDoesNotExist)
      | StagedRef p \<Rightarrow>
          (if p < length (heap s) then
             (case map_of (Dicts s) (dict (heap s ! p)) of
                Some u \<Rightarrow> inMemStagedDict_Get u (heap s ! p) k
              | None \<Rightarrow> Inl ErrKeyDoesNotExist)
           else Inl ErrKeyDoesNotExist))"

definition Dict_ForEach :: "DictRef \<Rightarrow> inMemoryState \<Rightarrow> (Key \<times> Value) list" where
  "Dict_ForEach r s =
     (case r of
        InMemRef n \<Rightarrow>
          (case map_of (Dicts s) n of
             Some u \<Rightarrow> inMemDict_ForEach u
           | None \<Rightarrow> [])
      | StagedRef p \<Rightarrow>
          (if p < length (heap s) then
             (case map_of (Dicts s) (dict (heap s ! p)) of
                Some u \<Rightarrow> inMemStagedDict_ForEach u (heap s ! p)
              | None \<Rightarrow> [])
           else []))"

text \<open>One turn of the inner loop of \<open>inMemoryTx.Commit\<close>: the operation \<open>o\<close> of the staged dict \<open>d\<close>.\<close>

definition Commit_op :: "inMemStagedDict \<Rightarrow> inMemoryState \<Rightarrow> StateOp \<Rightarrow> inMemoryState" where
  "Commit_op d s op =
     (case T op of
        Put \<Rightarrow> Dict_Put (InMemRef (dict d)) (K op) (V op) s
      | Del \<Rightarrow> Dict_Del (InMemRef (dict d)) (K op) s
      | OtherT \<Rightarrow> s)"

text \<open>One turn of the outer loop: all operations of the staged dict behind the pointer \<open>p\<close>.\<close>

definition Commit_staged :: "inMemoryState \<Rightarrow> ptr \<Rightarrow> inMemoryState" where
  "Commit_staged s p =
     (if p < length (heap s) then foldl (Commit_op (heap s ! p)) s (map snd (ops (heap s ! p)))
      else s)"

definition inMemoryTx_Commit :: "inMemoryTx \<Rightarrow> inMemoryState \<Rightarrow> inMemoryState" where
  "inMemoryTx_Commit t s = foldl Commit_staged s (map snd (stage t))"

definition inMemoryTx_Abort :: "inMemoryTx \<Rightarrow> inMemoryState \<Rightarrow> inMemoryState" where
  "inMemoryTx_Abort t s = s"

definition inMemoryState_CommitTx :: "inMemoryState \<Rightarrow> error option \<times> inMemoryState" where
  "inMemoryState_CommitTx s =
     (case tx s of
        None \<Rightarrow> (Some ErrNoActiveTx, s)
      | Some t \<Rightarrow> (None, inMemoryTx_Commit t s))"

definition inMemoryState_AbortTx :: "inMemoryState \<Rightarrow> error option \<times> inMemoryState" where
  "inMemoryState_AbortTx s =
     (case tx s of
        None \<Rightarrow> (Some ErrNoActiveTx, s)
      | Some t \<Rightarrow> (None, inMemoryTx_Abort t s))"

text \<open>
  \<open>inMemoryState.Tx\<close>: the result \<open>None\<close> is the nil slice. \<open>make([]StateOp, l)\<close> is a
  slice of \<open>l\<close> zero values, and \<open>append\<close> adds the staged operations behind them. The
  zero value of \<open>StateOp\<close> is the parameter \<open>z\<close>, since the declaration of the type is not
  among the sources.
\<close>

definition staged_ops :: "inMemoryState \<Rightarrow> ptr \<Rightarrow> StateOp list" where
  "staged_ops s p = (if p < length (heap s) then map snd (ops (heap s ! p)) else [])"

definition inMemoryState_Tx :: "StateOp \<Rightarrow> inMemoryState \<Rightarrow> StateOp list option" where
  "inMemoryState_Tx z s =
     (case tx s of
        None \<Rightarrow> None
      | Some t \<Rightarrow>
          (let l = sum_list (map (\<lambda>p. length (staged_ops s p)) (map snd (stage t)))
           in Some (replicate l z @ concat (map (staged_ops s) (map snd (stage t))))))"

section \<open>Messages and the hive (src/hive.go)\<close>

text \<open>
  Modelled from the spec: the type \<open>msg\<close> and the functions \<open>NoReply\<close>, \<open>From\<close> and
  \<open>newMsgFromData\<close> are not among the sources. The spec gives a message as
  \<open>(From, To, Type, Payload)\<close> with "NoReply iff From = zero"; \<open>hive.go\<close> reads the
  fields \<open>MsgData\<close> and \<open>MsgTo\<close>, takes bee identifiers as \<open>uint64\<close>, and calls
  \<open>newMsgFromData(msgData, 0, to)\<close> in \<open>SendToBee\<close>, so the arguments are the payload,
  the sender and the receiver. The payload is an opaque string here.
\<close>

record msg =
  MsgData :: string
  MsgFrom :: "64 word"
  MsgTo :: "64 word"

definition msg_From :: "msg \<Rightarrow> 64 word" where
  "msg_From m = MsgFrom m"

definition msg_NoReply :: "msg \<Rightarrow> bool" where
  "msg_NoReply m = (MsgFrom m = 0)"

definition newMsgFromData :: "string \<Rightarrow> 64 word \<Rightarrow> 64 word \<Rightarrow> msg" where
  "newMsgFromData msgData from to = \<lparr>MsgData = msgData, MsgFrom = from, MsgTo = to\<rparr>"

text \<open>
  Of the hive, \<open>ReplyTo\<close> touches the data channel only. The channel is the queue of the
  messages sent on it and not yet received; a send appends. The argument of \<open>ReplyTo\<close> is
  a \<open>*msg\<close>, the one implementation of the interface \<open>Msg\<close> that the sources use, so the
  type assertion \<open>thatMsg.(*msg)\<close> succeeds.
\<close>

record hive =
  dataCh :: "msg list"

definition hive_emitMsg :: "msg \<Rightarrow> hive \<Rightarrow> hive" where
  "hive_emitMsg m h = h\<lparr>dataCh := dataCh h @ [m]\<rparr>"

definition hive_SendToBee :: "string \<Rightarrow> 64 word \<Rightarrow> hive \<Rightarrow> hive" where
  "hive_SendToBee msgData to h = hive_emitMsg (newMsgFromData msgData 0 to) h"

definition hive_ReplyTo :: "msg \<Rightarrow> string \<Rightarrow> hive \<Rightarrow> error option \<times> hive" where
  "hive_ReplyTo thatMsg replyData h =
     (let m = thatMsg in
      if msg_NoReply m then (Some ErrCannotReply, h)
      else (None, hive_emitMsg (newMsgFromData replyData 0 (msg_From m)) h))"

section \<open>The bee (localBee)\<close>

record BeeColony =
  Master :: BeeID
  Slaves :: "BeeID list"

definition BeeColony_AddSlave :: "BeeID \<Rightarrow> BeeColony \<Rightarrow> bool \<times> BeeColony" where
  "BeeColony_AddSlave bid c =
     (if bid \<in> set (Slaves c) then (False, c)
      else (True, c\<lparr>Slaves := Slaves c @ [bid]\<rparr>))"

text \<open>The loop of \<open>DelSlave\<close>: the index of the first slave equal to \<open>bid\<close>, counting from \<open>i\<close>.\<close>

fun DelSlave_loop :: "BeeID \<Rightarrow> nat \<Rightarrow> BeeID list \<Rightarrow> nat option" where
  "DelSlave_loop bid i [] = None"
| "DelSlave_loop bid i (s # ss) = (if s = bid then Some i else DelSlave_loop bid (Suc i) ss)"

definition BeeColony_DelSlave :: "BeeID \<Rightarrow> BeeColony \<Rightarrow> bool \<times> BeeColony" where
  "BeeColony_DelSlave bid c =
     (case DelSlave_loop bid 0 (Slaves c) of
        Some i \<Rightarrow> (True, c\<lparr>Slaves := take i (Slaves c) @ drop (i + 1) (Slaves c)\<rparr>)
      | None \<Rightarrow> (False, c))"

text \<open>
  Modelled from the spec: the declaration of \<open>Tx\<close> is not among the sources. The spec
  gives it as \<open>(Seq, Ops, OutMsgs, Status)\<close> with the status one of Open, Committed,
  Aborted; the sources read \<open>Seq\<close> and assign \<open>TxCommitted\<close> to \<open>Status\<close>. A sequence
  number is only compared for equality, and is a natural number here.
\<close>

datatype TxStatus = TxOpen | TxCommitted | TxAborted

record Tx =
  Seq :: nat
  Ops :: "StateOp list"
  Msgs :: "msg list"
  Status :: TxStatus

text \<open>
  The command types are constants whose declaration is not among the sources;
  \<open>otherCmd\<close> is any value that takes the default branch. \<open>CmdData\<close> is an
  \<open>interface{}\<close>: the constructor is the dynamic type of the value.
\<close>

datatype CmdType =
  stopCmd | listSlavesCmd | addSlaveCmd | delSlaveCmd | bufferTxCmd | commitTxCmd | otherCmd

datatype CmdData =
    NilData
  | Data_addSlaveCmdData BeeID
  | Data_delSlaveCmdData BeeID
  | Data_BeeID BeeID
  | Data_Tx Tx
  | Data_TxSeq nat

datatype ResData = NilRes | SlavesRes "BeeID list"

record CmdResult =
  Data :: ResData
  Err :: "error option"

text \<open>\<open>ResCh\<close> is true for a channel, false for the nil channel.\<close>

record LocalCmd =
  CmdType :: CmdType
  CmdData :: CmdData
  ResCh :: bool

text \<open>The fields of the bee that \<open>handleCmd\<close> and \<open>replicateTx\<close> read or write.\<close>

record localBee =
  beeColony :: BeeColony
  txBuf :: "Tx list"

text \<open>A type assertion \<open>x.(T)\<close> without the second result: \<open>None\<close> is the run-time panic.\<close>

definition assert_addSlaveCmdData :: "CmdData \<Rightarrow> BeeID option" where
  "assert_addSlaveCmdData x = (case x of Data_addSlaveCmdData b \<Rightarrow> Some b | _ \<Rightarrow> None)"

definition assert_delSlaveCmdData :: "CmdData \<Rightarrow> BeeID option" where
  "assert_delSlaveCmdData x = (case x of Data_delSlaveCmdData b \<Rightarrow> Some b | _ \<Rightarrow> None)"

definition assert_BeeID :: "CmdData \<Rightarrow> BeeID option" where
  "assert_BeeID x = (case x of Data_BeeID b \<Rightarrow> Some b | _ \<Rightarrow> None)"

definition assert_Tx :: "CmdData \<Rightarrow> Tx option" where
  "assert_Tx x = (case x of Data_Tx t \<Rightarrow> Some t | _ \<Rightarrow> None)"

definition assert_TxSeq :: "CmdData \<Rightarrow> nat option" where
  "assert_TxSeq x = (case x of Data_TxSeq n \<Rightarrow> Some n | _ \<Rightarrow> None)"

text \<open>
  \<open>handleCmd\<close> returns whether the bee goes on, the results sent on \<open>cmd.ResCh\<close>, and
  the bee. \<open>ResCh_send\<close> is the statement \<open>cmd.ResCh <- r\<close> followed by \<open>return true\<close>.
\<close>

definition ResCh_send :: "LocalCmd \<Rightarrow> CmdResult \<Rightarrow> localBee \<Rightarrow> (bool \<times> CmdResult list \<times> localBee) outcome" where
  "ResCh_send cmd r bee = (if ResCh cmd then Returns (True, [r], bee) else Blocks)"

text \<open>
  The loop of the \<open>commitTxCmd\<close> branch. Its variable \<open>tx\<close> (here \<open>t\<close>) is a copy of
  the element of \<open>bee.txBuf\<close>, a \<open>[]Tx\<close>; the assignment to \<open>tx.Status\<close> changes the
  copy, which is the result here, and the slice is not written.
\<close>

fun commitTx_loop :: "nat \<Rightarrow> Tx list \<Rightarrow> Tx option" where
  "commitTx_loop seq [] = None"
| "commitTx_loop seq (t # ts) =
     (if seq = Seq t then Some (t\<lparr>Status := TxCommitted\<rparr>) else commitTx_loop seq ts)"

definition localBee_handleCmd :: "LocalCmd \<Rightarrow> localBee \<Rightarrow> (bool \<times> CmdResult list \<times> localBee) outcome" where
  "localBee_handleCmd cmd bee =
     (case CmdType cmd of
        stopCmd \<Rightarrow>
          (if ResCh cmd then Returns (False, [\<lparr>Data = NilRes, Err = None\<rparr>], bee) else Blocks)
      | listSlavesCmd \<Rightarrow>
          ResCh_send cmd \<lparr>Data = SlavesRes (Slaves (beeColony bee)), Err = None\<rparr> bee
      | addSlaveCmd \<Rightarrow>
          (case assert_addSlaveCmdData (CmdData cmd) of
             None \<Rightarrow> Panics
           | Some slaveID \<Rightarrow>
               (let (ok, c) = BeeColony_AddSlave slaveID (beeColony bee);
                    bee1 = bee\<lparr>beeColony := c\<rparr>
                in if \<not> ok then
                     (case assert_BeeID (CmdData cmd) of
                        None \<Rightarrow> Panics
                      | Some b \<Rightarrow> ResCh_send cmd \<lparr>Data = NilRes, Err = Some (ErrSlaveExists b)\<rparr> bee1)
                   else ResCh_send cmd \<lparr>Data = NilRes, Err = None\<rparr> bee1))
      | delSlaveCmd \<Rightarrow>
          (case assert_delSlaveCmdData (CmdData cmd) of
             None \<Rightarrow> Panics
           | Some slaveID \<Rightarrow>
               (let (ok, c) = BeeColony_DelSlave slaveID (beeColony bee);
                    bee1 = bee\<lparr>beeColony := c\<rparr>
                in if \<not> ok then
                     (case assert_BeeID (CmdData cmd) of
                        None \<Rightarrow> Panics
                      | Some b \<Rightarrow> ResCh_send cmd \<lparr>Data = NilRes, Err = Some (ErrSlaveExists b)\<rparr> bee1)
                   else ResCh_send cmd \<lparr>Data = NilRes, Err = None\<rparr> bee1))
      | bufferTxCmd \<Rightarrow>
          (case assert_Tx (CmdData cmd) of
             None \<Rightarrow> Panics
           | Some t \<Rightarrow> ResCh_send cmd \<lparr>Data = NilRes, Err = None\<rparr> (bee\<lparr>txBuf := txBuf bee @ [t]\<rparr>))
      | commitTxCmd \<Rightarrow>
          (case assert_TxSeq (CmdData cmd) of
             None \<Rightarrow> Panics
           | Some seq \<Rightarrow>
               (case commitTx_loop seq (txBuf bee) of
                  Some t \<Rightarrow> ResCh_send cmd \<lparr>Data = NilRes, Err = None\<rparr> bee
                | None \<Rightarrow> ResCh_send cmd \<lparr>Data = NilRes, Err = Some (ErrTxNotFound seq)\<rparr> bee))
      | otherCmd \<Rightarrow>
          (if ResCh cmd then ResCh_send cmd \<lparr>Data = NilRes, Err = Some ErrUnknownCmd\<rparr> bee
           else Returns (True, [], bee)))"

text \<open>
  \<open>replicateTx\<close>: \<open>NewProxy\<close>, \<open>NewRemoteCmd\<close> and \<open>Proxy.SendCmd\<close> are not among the
  sources. The parameter \<open>SendCmd i s tx\<close> is the error of the call that turn \<open>i\<close> of the
  loop makes for the slave \<open>s\<close>, \<open>None\<close> for nil. The first result is the list of slaves
  for which \<open>glog.Errorf\<close> was called, the second the error returned.
\<close>

fun replicateTx_loop ::
  "(nat \<Rightarrow> BeeID \<Rightarrow> Tx \<Rightarrow> error option) \<Rightarrow> Tx \<Rightarrow> nat \<Rightarrow> BeeID list \<Rightarrow> BeeID list \<times> error option" where
  "replicateTx_loop SendCmd t i [] = ([], None)"
| "replicateTx_loop SendCmd t i (s # ss) =
     (case SendCmd i s t of
        None \<Rightarrow> replicateTx_loop SendCmd t (Suc i) ss
      | Some err \<Rightarrow>
          (if i = 0 then ([s], Some err)
           else (let (lg, r) = replicateTx_loop SendCmd t (Suc i) ss in (s # lg, r))))"

definition localBee_replicateTx ::
  "(nat \<Rightarrow> BeeID \<Rightarrow> Tx \<Rightarrow> error option) \<Rightarrow> Tx \<Rightarrow> localBee \<Rightarrow> BeeID list \<times> error option" where
  "localBee_replicateTx SendCmd t bee = replicateTx_loop SendCmd t 0 (Slaves (beeColony bee))"

text \<open>
  \<open>handleMsg\<close>: the receive context \<open>bee.ctx\<close> is not among the sources. Its state is
  of the type \<open>'c\<close>, its methods \<open>BeginTx\<close>, \<open>CommitTx\<close> and \<open>AbortTx\<close> are parameters
  (their results are dropped by \<open>handleMsg\<close>), and so are the flag of the application and
  the handler: \<open>Rcv c\<close> is what the handler did to the context, and whether it returned
  nil, returned an error, or panicked. \<open>RcvPanic r\<close> is a panic of the handler, \<open>r\<close>
  the value that \<open>recover()\<close> returns in the deferred function: \<open>None\<close> is nil, which
  is what \<open>recover()\<close> returns after \<open>panic(nil)\<close> with the Go releases this repository
  is built with (before Go 1.21). The panic ends there in either case, but the deferred
  function calls \<open>recoverFromError\<close> only when \<open>r\<close> is not nil. The methods of the
  context and the collector are taken to return; a panic inside them is not modelled.
  The result is the trace of the calls made and the context.
\<close>

datatype RcvResult = RcvNil | RcvError error | RcvPanic "string option"

datatype call =
  Call_BeginTx | Call_Rcv | Call_CommitTx | Call_AbortTx | Call_collect | Log_Errorf | Log_Stack

definition localBee_recoverFromError :: "('c \<Rightarrow> 'c) \<Rightarrow> bool \<Rightarrow> 'c \<Rightarrow> call list \<times> 'c" where
  "localBee_recoverFromError AbortTx stack c =
     ((if stack then [Log_Errorf, Log_Stack] else [Log_Errorf]) @ [Call_AbortTx], AbortTx c)"

definition localBee_handleMsg ::
  "bool \<Rightarrow> ('c \<Rightarrow> 'c) \<Rightarrow> ('c \<Rightarrow> 'c) \<Rightarrow> ('c \<Rightarrow> 'c) \<Rightarrow> ('c \<Rightarrow> RcvResult \<times> 'c) \<Rightarrow> 'c \<Rightarrow> call list \<times> 'c" where
  "localBee_handleMsg Transactional BeginTx CommitTx AbortTx Rcv c =
     (let (tr1, c1) = (if Transactional then ([Call_BeginTx], BeginTx c) else ([], c));
          (res, c2) = Rcv c1
      in case res of
           RcvPanic r \<Rightarrow>
             (if r \<noteq> None then
                (let (tr3, c3) = localBee_recoverFromError AbortTx True c2
                 in (tr1 @ [Call_Rcv] @ tr3, c3))
              else (tr1 @ [Call_Rcv], c2))
         | RcvError err \<Rightarrow>
             (let (tr3, c3) = localBee_recoverFromError AbortTx False c2
              in (tr1 @ [Call_Rcv] @ tr3, c3))
         | RcvNil \<Rightarrow> (tr1 @ [Call_Rcv, Call_CommitTx, Call_collect], CommitTx c2))"

text \<open>
  Modelled from the spec: the methods \<open>BeginTx\<close>, \<open>CommitTx\<close> and \<open>AbortTx\<close> of the
  receive context are not among the sources. By the spec the context exposes the
  transactional state of the bee, so here they are the methods of the in-memory state,
  with the error dropped as \<open>handleMsg\<close> drops it.
\<close>

definition inMemory_handleMsg ::
  "bool \<Rightarrow> (inMemoryState \<Rightarrow> RcvResult \<times> inMemoryState) \<Rightarrow> inMemoryState \<Rightarrow> call list \<times> inMemoryState" where
  "inMemory_handleMsg Transactional Rcv s =
     localBee_handleMsg Transactional
       (\<lambda>c. snd (inMemoryState_BeginTx c))
       (\<lambda>c. snd (inMemoryState_CommitTx c))
       (\<lambda>c. snd (inMemoryState_AbortTx c)) Rcv s"

section \<open>Notions used by the properties\<close>

text \<open>The value stored under the key \<open>k\<close> in the underlying dict \<open>n\<close>, if there is one.\<close>

definition underlying :: "inMemoryState \<Rightarrow> DictName \<Rightarrow> Key \<Rightarrow> Value option" where
  "underlying s n k = (case map_of (Dicts s) n of None \<Rightarrow> None | Some u \<Rightarrow> map_of (Dict u) k)"

text \<open>\<open>s.Dict(n).Get(k)\<close>: the result of \<open>Get\<close> and the state after the call of \<open>Dict\<close>.\<close>

definition Get_through_Dict :: "DictName \<Rightarrow> Key \<Rightarrow> inMemoryState \<Rightarrow> (error + Value) \<times> inMemoryState" where
  "Get_through_Dict n k s = (let (r, s1) = inMemoryState_Dict n s in (Dict_Get r k s1, s1))"

text \<open>
  What a handler does to the state inside a transaction: it asks for the view of a dict,
  and it stages a \<open>Put\<close> or a \<open>Del\<close> through the pointer to a staged dict (\<open>Get\<close> and
  \<open>ForEach\<close> leave the state as it is).
\<close>

datatype txAct = Act_Dict DictName | Act_Put ptr Key Value | Act_Del ptr Key

fun txAct_run :: "inMemoryState \<Rightarrow> txAct \<Rightarrow> inMemoryState" where
  "txAct_run s (Act_Dict n) = snd (inMemoryState_Dict n s)"
| "txAct_run s (Act_Put p k v) = Dict_Put (StagedRef p) k v s"
| "txAct_run s (Act_Del p k) = Dict_Del (StagedRef p) k s"

text \<open>The calls of \<open>Put\<close> and \<open>Del\<close> on one staged view, and the view they leave.\<close>

datatype stagedAct = PutAct Key Value | DelAct Key

fun stagedAct_key :: "stagedAct \<Rightarrow> Key" where
  "stagedAct_key (PutAct k v) = k"
| "stagedAct_key (DelAct k) = k"

fun stagedAct_run :: "inMemDict \<Rightarrow> inMemStagedDict \<Rightarrow> stagedAct \<Rightarrow> inMemStagedDict" where
  "stagedAct_run u d (PutAct k v) = inMemStagedDict_Put u d k v"
| "stagedAct_run u d (DelAct k) = inMemStagedDict_Del u d k"

text \<open>
  The spec's "staged intent" for a key: the most recent of the staged operations on
  that key, in a list of calls with the oldest first.
\<close>

fun lastStaged :: "Key \<Rightarrow> stagedAct list \<Rightarrow> stagedAct option" where
  "lastStaged k [] = None"
| "lastStaged k (a # as) =
     (case lastStaged k as of
        Some b \<Rightarrow> Some b
      | None \<Rightarrow> (if stagedAct_key a = k then Some a else None))"

text \<open>
  A run used below: on a new state a transaction is begun, the view of the dict \<open>d\<close> is
  taken, and the key \<open>k\<close> is put with the value \<open>v\<close> through it. The view is the staged
  dict at the pointer 0.
\<close>

definition new_state :: inMemoryState where
  "new_state = \<lparr>Name = ''s'', Dicts = [], tx = None, heap = []\<rparr>"

definition staged_put_state :: inMemoryState where
  "staged_put_state =
     (let s1 = snd (inMemoryState_BeginTx new_state);
          (r, s2) = inMemoryState_Dict ''d'' s1
      in Dict_Put r ''k'' ''v'' s2)"

text \<open>
  A state outside a transaction whose dict \<open>d\<close> holds the value \<open>old\<close> under \<open>k\<close>, and
  a handler that takes the view of the dict \<open>c\<close>, puts \<open>a\<close> and \<open>b\<close> through it, and
  returns an error.
\<close>

definition committed_state :: inMemoryState where
  "committed_state =
     \<lparr>Name = ''s'', Dicts = [(''d'', \<lparr>DictName = ''d'', Dict = [(''k'', ''old'')]\<rparr>)],
      tx = None, heap = []\<rparr>"

definition failing_handler :: "inMemoryState \<Rightarrow> RcvResult \<times> inMemoryState" where
  "failing_handler s =
     (let (r, s1) = inMemoryState_Dict ''c'' s;
          s2 = Dict_Put r ''a'' ''1'' s1;
          s3 = Dict_Put r ''b'' ''2'' s2
      in (RcvError ErrNoSuchKey, s3))"

text \<open>A handler that calls \<open>panic(nil)\<close> at once, and one that returns nil at once.\<close>

definition nil_panic_handler :: "inMemoryState \<Rightarrow> RcvResult \<times> inMemoryState" where
  "nil_panic_handler s = (RcvPanic None, s)"

definition succeeding_handler :: "inMemoryState \<Rightarrow> RcvResult \<times> inMemoryState" where
  "succeeding_handler s = (RcvNil, s)"

section \<open>Properties of the in-memory state\<close>

subsection \<open>The run with one staged Put\<close>

lemma staged_put_state_eq:
  "staged_put_state =
     \<lparr>Name = ''s'', Dicts = [(''d'', \<lparr>DictName = ''d'', Dict = []\<rparr>)],
      tx = Some \<lparr>stage = [(''d'', 0)]\<rparr>,
      heap = [\<lparr>dict = ''d'', ops = [(''k'', \<lparr>T = Put, D = ''d'', K = ''k'', V = ''v''\<rparr>)]\<rparr>]\<rparr>"
  by (simp add: staged_put_state_def new_state_def inMemoryState_BeginTx_def
      inMemoryState_newTransaction_def inMemoryState_Dict_def inMemoryTx_Dict_def
      inMemoryState_inMemDict_def Dict_Put_def inMemStagedDict_Put_def inMemDict_Name_def)

lemma commit_staged_put_state:
  "inMemoryState_CommitTx staged_put_state =
     (None, staged_put_state\<lparr>Dicts := [(''d'', \<lparr>DictName = ''d'', Dict = [(''k'', ''v'')]\<rparr>)]\<rparr>)"
  by (simp add: staged_put_state_eq inMemoryState_CommitTx_def inMemoryTx_Commit_def
      Commit_staged_def Commit_op_def Dict_Put_def inMemDict_Put_def)

text \<open>
  C1 (commit applies the staged operations and clears the stage, so that the next
  BeginTx succeeds). On the run with one staged Put, \<open>CommitTx\<close> returns nil and the
  underlying dict holds the value, but the transaction and its stage are still there
  afterwards, and the next \<open>BeginTx\<close> fails with "Transaction is already started".
\<close>

theorem CommitTx_keeps_transaction_open:
  "fst (inMemoryState_CommitTx staged_put_state) = None \<and>
   underlying (snd (inMemoryState_CommitTx staged_put_state)) ''d'' ''k'' = Some ''v'' \<and>
   tx (snd (inMemoryState_CommitTx staged_put_state)) = Some \<lparr>stage = [(''d'', 0)]\<rparr> \<and>
   fst (inMemoryState_BeginTx (snd (inMemoryState_CommitTx staged_put_state))) =
     Some ErrTxAlreadyStarted"
  by (simp add: commit_staged_put_state underlying_def inMemoryState_BeginTx_def)
     (simp add: staged_put_state_eq)

subsection \<open>Iteration over a staged view\<close>

lemma map_of_ops_stagedAct_run:
  "map_of (ops (stagedAct_run u d a)) k =
     (if stagedAct_key a = k then
        (case a of
           PutAct k' v \<Rightarrow> Some \<lparr>T = Put, D = inMemDict_Name u, K = k, V = v\<rparr>
         | DelAct k' \<Rightarrow> Some \<lparr>T = Del, D = inMemDict_Name u, K = k, V = []\<rparr>)
      else map_of (ops d) k)"
  by (cases a) (simp_all add: inMemStagedDict_Put_def inMemStagedDict_Del_def update_conv')

lemma map_of_ops_foldl:
  "map_of (ops (foldl (stagedAct_run u) d acts)) k =
     (case lastStaged k acts of
        Some (PutAct k' v) \<Rightarrow> Some \<lparr>T = Put, D = inMemDict_Name u, K = k, V = v\<rparr>
      | Some (DelAct k') \<Rightarrow> Some \<lparr>T = Del, D = inMemDict_Name u, K = k, V = []\<rparr>
      | None \<Rightarrow> map_of (ops d) k)"
proof (induction acts arbitrary: d)
  case Nil
  then show ?case by simp
next
  case (Cons a acts)
  show ?case
    using Cons.IH [of "stagedAct_run u d a"]
    by (simp add: map_of_ops_stagedAct_run split: option.splits stagedAct.splits)
qed

lemma staged_visit_keys:
  "map fst (inMemStagedDict_visit (foldl (stagedAct_run u) \<lparr>dict = p, ops = []\<rparr> acts) (k, v)) =
     (case lastStaged k acts of Some (DelAct k') \<Rightarrow> [] | _ \<Rightarrow> [k])"
  by (simp add: inMemStagedDict_visit_def map_of_ops_foldl split: option.splits stagedAct.splits)

text \<open>
  The keys a staged view visits are the keys of the underlying dict, in its order, without
  those whose staged intent is a \<open>Del\<close>: a key that is staged but not in the underlying
  dict is not among them.
\<close>

lemma staged_ForEach_keys:
  "map fst (inMemStagedDict_ForEach u (foldl (stagedAct_run u) \<lparr>dict = p, ops = []\<rparr> acts)) =
     filter (\<lambda>k. case lastStaged k acts of Some (DelAct k') \<Rightarrow> False | _ \<Rightarrow> True)
       (map fst (Dict u))"
proof -
  have "map fst (concat (map (inMemStagedDict_visit
            (foldl (stagedAct_run u) \<lparr>dict = p, ops = []\<rparr> acts)) xs)) =
        filter (\<lambda>k. case lastStaged k acts of Some (DelAct k') \<Rightarrow> False | _ \<Rightarrow> True)
          (map fst xs)" for xs
  proof (induction xs)
    case Nil
    then show ?case by simp
  next
    case (Cons x xs)
    obtain k v where x: "x = (k, v)" by (cases x)
    show ?case
      using Cons.IH staged_visit_keys [of u p acts k v]
      by (simp add: x split: option.splits stagedAct.splits)
  qed
  then show ?thesis
    by (simp add: inMemStagedDict_ForEach_def inMemDict_ForEach_def)
qed

text \<open>
  C2 (ForEach on a transactional view visits the underlying keys that are not staged
  for deletion and the staged-put keys, also a staged-put key that the underlying dict
  does not have). On the run with one staged Put of a key that the underlying dict does
  not have, \<open>Get\<close> through the view returns the staged value, but \<open>ForEach\<close> on the same
  view visits nothing; after the commit the key is visited.
\<close>

theorem staged_ForEach_misses_new_key:
  "Dict_Get (StagedRef 0) ''k'' staged_put_state = Inr ''v'' \<and>
   Dict_ForEach (StagedRef 0) staged_put_state = [] \<and>
   Dict_ForEach (InMemRef ''d'') (snd (inMemoryState_CommitTx staged_put_state)) = [(''k'', ''v'')]"
  by (simp add: commit_staged_put_state)
     (simp add: staged_put_state_eq Dict_Get_def Dict_ForEach_def inMemStagedDict_Get_def
        inMemStagedDict_ForEach_def inMemDict_ForEach_def)

subsection \<open>The list of staged operations\<close>

lemma Tx_leading_zero_values:
  "inMemoryState_Tx z s =
     (case tx s of
        None \<Rightarrow> None
      | Some t \<Rightarrow>
          Some (replicate (length (concat (map (staged_ops s) (map snd (stage t))))) z @
                concat (map (staged_ops s) (map snd (stage t)))))"
  by (simp add: inMemoryState_Tx_def length_concat comp_def split: option.splits)

text \<open>
  C5 (Tx() returns exactly the staged operations, as many elements as there are staged
  operations and no zero-valued leading entries; nil with no transaction). On the run
  with one staged Put, \<open>Tx\<close> returns two elements: the zero value \<open>z\<close> of \<open>StateOp\<close>,
  then the staged Put. With no transaction it returns nil.
\<close>

theorem Tx_returns_zero_value_first:
  "inMemoryState_Tx z staged_put_state =
     Some [z, \<lparr>T = Put, D = ''d'', K = ''k'', V = ''v''\<rparr>] \<and>
   map_option length (inMemoryState_Tx z staged_put_state) = Some 2 \<and>
   inMemoryState_Tx z new_state = None"
  by (simp add: staged_put_state_eq new_state_def inMemoryState_Tx_def staged_ops_def)

subsection \<open>Reading through a staged view\<close>

text \<open>
  Through one staged dict, \<open>Get\<close> of a key returns the value of the most recent
  operation staged on that key through the same staged dict when that is a Put, the error
  "No such key" when it is a Del, and what \<open>Get\<close> on the underlying dict returns when
  there is none. The staged dict is the one \<open>inMemoryTx.Dict\<close> creates, after any calls
  of \<open>Put\<close> and \<open>Del\<close> on it.
\<close>

lemma staged_Get_returns_last_intent:
  "inMemStagedDict_Get u (foldl (stagedAct_run u) \<lparr>dict = p, ops = []\<rparr> acts) k =
     (case lastStaged k acts of
        Some (PutAct k' v) \<Rightarrow> Inr v
      | Some (DelAct k') \<Rightarrow> Inl ErrNoSuchKey
      | None \<Rightarrow> inMemDict_Get u k)"
  by (simp add: inMemStagedDict_Get_def map_of_ops_foldl split: option.splits stagedAct.splits)

lemma second_view_state:
  "inMemoryState_Dict ''d'' staged_put_state =
     (StagedRef 1,
      \<lparr>Name = ''s'', Dicts = [(''d'', \<lparr>DictName = ''d'', Dict = []\<rparr>)],
       tx = Some \<lparr>stage = [(''d'', 1)]\<rparr>,
       heap = [\<lparr>dict = ''d'', ops = [(''k'', \<lparr>T = Put, D = ''d'', K = ''k'', V = ''v''\<rparr>)]\<rparr>,
               \<lparr>dict = ''d'', ops = []\<rparr>]\<rparr>)"
  by (simp add: staged_put_state_eq inMemoryState_Dict_def inMemoryTx_Dict_def
      inMemoryState_inMemDict_def)

text \<open>
  C7 (inside a transaction, Get through a staged view returns the value of the most
  recent staged Put for the key). On the run with one staged Put of \<open>k\<close> in the dict
  \<open>d\<close>, a second call of \<open>Dict\<close> for \<open>d\<close> returns a new staged dict with no
  operations and puts it into the stage in place of the first: \<open>Get\<close> of \<open>k\<close> through
  the first view returns the staged value, \<open>Get\<close> of \<open>k\<close> through the second returns
  "Key does not exist.", and \<open>CommitTx\<close> does not apply the Put.
\<close>

theorem second_view_misses_staged_Put:
  "fst (inMemoryState_Dict ''d'' staged_put_state) = StagedRef 1 \<and>
   Dict_Get (StagedRef 0) ''k'' (snd (inMemoryState_Dict ''d'' staged_put_state)) = Inr ''v'' \<and>
   Dict_Get (StagedRef 1) ''k'' (snd (inMemoryState_Dict ''d'' staged_put_state)) =
     Inl ErrKeyDoesNotExist \<and>
   underlying
     (snd (inMemoryState_CommitTx (snd (inMemoryState_Dict ''d'' staged_put_state)))) ''d'' ''k'' =
     None"
  by (simp add: second_view_state Dict_Get_def inMemStagedDict_Get_def inMemDict_Get_def
      inMemoryState_CommitTx_def inMemoryTx_Commit_def Commit_staged_def underlying_def)

subsection \<open>Abort\<close>

lemma underlying_inMemDict [simp]:
  "underlying (snd (inMemoryState_inMemDict n s)) n' k = underlying s n' k"
  by (simp add: inMemoryState_inMemDict_def underlying_def update_conv' split: option.splits)

lemma inMemDict_present:
  "\<exists>u. map_of (Dicts (snd (inMemoryState_inMemDict n s))) n = Some u"
  by (simp add: inMemoryState_inMemDict_def update_conv' split: option.splits)

lemma fst_inMemDict [simp]: "fst (inMemoryState_inMemDict n s) = n"
  by (simp add: inMemoryState_inMemDict_def split: option.splits)

lemma underlying_Dict [simp]:
  "underlying (snd (inMemoryState_Dict n s)) n' k = underlying s n' k"
proof -
  have "Dicts (snd (inMemoryState_Dict n s)) = Dicts (snd (inMemoryState_inMemDict n s))"
    by (simp add: inMemoryState_Dict_def inMemoryTx_Dict_def split_def Let_def split: option.splits)
  then have "underlying (snd (inMemoryState_Dict n s)) n' k =
      underlying (snd (inMemoryState_inMemDict n s)) n' k"
    by (simp add: underlying_def)
  then show ?thesis by simp
qed

lemma underlying_staged_Put [simp]:
  "underlying (Dict_Put (StagedRef p) k v s) n' k' = underlying s n' k'"
  by (simp add: Dict_Put_def underlying_def split: option.splits)

lemma underlying_staged_Del [simp]:
  "underlying (Dict_Del (StagedRef p) k s) n' k' = underlying s n' k'"
  by (simp add: Dict_Del_def underlying_def split: option.splits)

lemma underlying_txAct_run [simp]: "underlying (txAct_run s a) n k = underlying s n k"
  by (cases a) simp_all

lemma underlying_foldl_txAct_run [simp]:
  "underlying (foldl txAct_run s acts) n k = underlying s n k"
  by (induction acts arbitrary: s) simp_all

lemma underlying_BeginTx [simp]:
  "underlying (snd (inMemoryState_BeginTx s)) n k = underlying s n k"
  by (simp add: inMemoryState_BeginTx_def underlying_def)

lemma underlying_AbortTx [simp]:
  "underlying (snd (inMemoryState_AbortTx s)) n k = underlying s n k"
  by (simp add: inMemoryState_AbortTx_def inMemoryTx_Abort_def split: option.splits)

text \<open>
  With or without a transaction, \<open>Get\<close> through \<open>Dict\<close> on a view just taken reads the
  underlying dict: inside a transaction the view is a new staged dict with no operations.
\<close>

lemma Get_through_Dict_underlying:
  "fst (Get_through_Dict n k s) =
     (case underlying s n k of None \<Rightarrow> Inl ErrKeyDoesNotExist | Some v \<Rightarrow> Inr v)"
proof -
  obtain u where u: "map_of (Dicts (snd (inMemoryState_inMemDict n s))) n = Some u"
    using inMemDict_present by blast
  have und: "underlying s n k = map_of (Dict u) k"
    using underlying_inMemDict [of n s n k] u by (simp add: underlying_def)
  show ?thesis
  proof (cases "tx s")
    case None
    then show ?thesis
      using u und
      by (simp add: Get_through_Dict_def inMemoryState_Dict_def Dict_Get_def inMemDict_Get_def
          split_def Let_def split: option.splits)
  next
    case (Some t)
    then show ?thesis
      using u und
      by (simp add: Get_through_Dict_def inMemoryState_Dict_def inMemoryTx_Dict_def Dict_Get_def
          inMemStagedDict_Get_def inMemDict_Get_def split_def Let_def split: option.splits)
  qed
qed

lemma underlying_Get_through_Dict [simp]:
  "underlying (snd (Get_through_Dict n k s)) n' k' = underlying s n' k'"
  using underlying_Dict [of n s n' k']
  by (simp add: Get_through_Dict_def split_def Let_def)



section \<open>Properties of the bee\<close>

subsection \<open>Replication\<close>

lemma replicateTx_loop_later:
  "0 < i \<Longrightarrow> snd (replicateTx_loop SendCmd t i ss) = None"
proof (induction ss arbitrary: i)
  case Nil
  then show ?case by simp
next
  case (Cons s ss)
  from Cons.IH [of "Suc i"] have "snd (replicateTx_loop SendCmd t (Suc i) ss) = None" by simp
  with Cons.prems show ?case
    by (cases "replicateTx_loop SendCmd t (Suc i) ss") (simp split: option.splits)
qed

lemma replicateTx_loop_log:
  "0 < i \<Longrightarrow> fst (replicateTx_loop SendCmd t i ss) =
     map snd (filter (\<lambda>(j, s). SendCmd j s t \<noteq> None) (zip [i ..< i + length ss] ss))"
proof (induction ss arbitrary: i)
  case Nil
  then show ?case by simp
next
  case (Cons s ss)
  have "[i ..< i + length (s # ss)] = i # [Suc i ..< Suc i + length ss]"
    by (simp add: upt_conv_Cons del: upt_Suc)
  then have z: "zip [i ..< i + length (s # ss)] (s # ss) =
      (i, s) # zip [Suc i ..< Suc i + length ss] ss"
    by (simp del: upt_Suc)
  from Cons.IH [of "Suc i"] have ih: "fst (replicateTx_loop SendCmd t (Suc i) ss) =
     map snd (filter (\<lambda>(j, s). SendCmd j s t \<noteq> None) (zip [Suc i ..< Suc i + length ss] ss))"
    by simp
  show ?case
    unfolding z using ih Cons.prems
    by (cases "replicateTx_loop SendCmd t (Suc i) ss") (simp split: option.splits)
qed

text \<open>
  C3: \<open>replicateTx\<close> returns an error exactly when the colony has a first slave and
  the send to it fails, and then it returns that error. When the first send succeeds,
  every later slave whose send fails is logged and the result is nil.
\<close>

theorem replicateTx_error_iff_first_send_fails:
  "localBee_replicateTx SendCmd t bee =
     (case Slaves (beeColony bee) of
        [] \<Rightarrow> ([], None)
      | s # ss \<Rightarrow>
          (case SendCmd 0 s t of
             Some err \<Rightarrow> ([s], Some err)
           | None \<Rightarrow>
               (map snd (filter (\<lambda>(j, s'). SendCmd j s' t \<noteq> None) (zip [1 ..< 1 + length ss] ss)),
                None)))"
proof (cases "Slaves (beeColony bee)")
  case Nil
  then show ?thesis by (simp add: localBee_replicateTx_def)
next
  case (Cons s ss)
  have r: "snd (replicateTx_loop SendCmd t (Suc 0) ss) = None"
    by (rule replicateTx_loop_later) simp
  have l: "fst (replicateTx_loop SendCmd t (Suc 0) ss) =
     map snd (filter (\<lambda>(j, s'). SendCmd j s' t \<noteq> None) (zip [Suc 0 ..< Suc 0 + length ss] ss))"
    by (rule replicateTx_loop_log) simp
  from Cons r l show ?thesis
    by (cases "replicateTx_loop SendCmd t (Suc 0) ss")
       (simp add: localBee_replicateTx_def split: option.splits)
qed

theorem replicateTx_error_iff_first_send_fails_witness:
  "localBee_replicateTx (\<lambda>i s t. if i = 1 then Some (ErrProxy ''down'') else None)
      \<lparr>Seq = 1, Ops = [], Msgs = [], Status = TxOpen\<rparr>
      \<lparr>beeColony = \<lparr>Master = \<lparr>HiveID = ''h0'', AppName = ''a'', ID = 1, Detached = False\<rparr>,
                     Slaves = [\<lparr>HiveID = ''h1'', AppName = ''a'', ID = 1, Detached = False\<rparr>,
                               \<lparr>HiveID = ''h2'', AppName = ''a'', ID = 1, Detached = False\<rparr>]\<rparr>,
       txBuf = []\<rparr>
     = ([\<lparr>HiveID = ''h2'', AppName = ''a'', ID = 1, Detached = False\<rparr>], None) \<and>
   localBee_replicateTx (\<lambda>i s t. if i = 0 then Some (ErrProxy ''down'') else None)
      \<lparr>Seq = 1, Ops = [], Msgs = [], Status = TxOpen\<rparr>
      \<lparr>beeColony = \<lparr>Master = \<lparr>HiveID = ''h0'', AppName = ''a'', ID = 1, Detached = False\<rparr>,
                     Slaves = [\<lparr>HiveID = ''h1'', AppName = ''a'', ID = 1, Detached = False\<rparr>,
                               \<lparr>HiveID = ''h2'', AppName = ''a'', ID = 1, Detached = False\<rparr>]\<rparr>,
       txBuf = []\<rparr>
     = ([\<lparr>HiveID = ''h1'', AppName = ''a'', ID = 1, Detached = False\<rparr>], Some (ErrProxy ''down''))"
  using
    replicateTx_error_iff_first_send_fails
      [of "\<lambda>i s t. if i = 1 then Some (ErrProxy ''down'') else None"
          "\<lparr>Seq = 1, Ops = [], Msgs = [], Status = TxOpen\<rparr>"
          "\<lparr>beeColony = \<lparr>Master = \<lparr>HiveID = ''h0'', AppName = ''a'', ID = 1, Detached = False\<rparr>,
                     Slaves = [\<lparr>HiveID = ''h1'', AppName = ''a'', ID = 1, Detached = False\<rparr>,
                               \<lparr>HiveID = ''h2'', AppName = ''a'', ID = 1, Detached = False\<rparr>]\<rparr>,
            txBuf = []\<rparr>"]
    replicateTx_error_iff_first_send_fails
      [of "\<lambda>i s t. if i = 0 then Some (ErrProxy ''down'') else None"
          "\<lparr>Seq = 1, Ops = [], Msgs = [], Status = TxOpen\<rparr>"
          "\<lparr>beeColony = \<lparr>Master = \<lparr>HiveID = ''h0'', AppName = ''a'', ID = 1, Detached = False\<rparr>,
                     Slaves = [\<lparr>HiveID = ''h1'', AppName = ''a'', ID = 1, Detached = False\<rparr>,
                               \<lparr>HiveID = ''h2'', AppName = ''a'', ID = 1, Detached = False\<rparr>]\<rparr>,
            txBuf = []\<rparr>"]
  by simp

subsection \<open>Control commands\<close>

text \<open>Whatever the buffer holds, a \<open>commitTxCmd\<close> that returns leaves the bee as it was.\<close>

lemma handleCmd_commitTx_same_bee:
  "CmdType cmd = commitTxCmd \<Longrightarrow> localBee_handleCmd cmd bee = Returns (go, rs, bee') \<Longrightarrow>
   bee' = bee"
  by (auto simp: localBee_handleCmd_def ResCh_send_def split: option.splits if_splits)

text \<open>
  C4 (CommitTx{Seq} sets the status of the buffered transaction with that Seq to
  Committed, observable in txBuf, and replies with success). With one open transaction
  of Seq 1 in the buffer, the command for Seq 1 replies with success, and the buffer
  still holds the transaction with the status Open.
\<close>

theorem commitTxCmd_leaves_status_open:
  "localBee_handleCmd \<lparr>CmdType = commitTxCmd, CmdData = Data_TxSeq 1, ResCh = True\<rparr>
      \<lparr>beeColony = c, txBuf = [\<lparr>Seq = 1, Ops = [], Msgs = [], Status = TxOpen\<rparr>]\<rparr>
   = Returns (True, [\<lparr>Data = NilRes, Err = None\<rparr>],
      \<lparr>beeColony = c, txBuf = [\<lparr>Seq = 1, Ops = [], Msgs = [], Status = TxOpen\<rparr>]\<rparr>)"
  by (simp add: localBee_handleCmd_def assert_TxSeq_def ResCh_send_def)

text \<open>
  An \<open>addSlaveCmd\<close> for a slave the colony has, and a \<open>delSlaveCmd\<close> for one it does not
  have, panic whatever the channel is: the data is an \<open>addSlaveCmdData\<close> (a
  \<open>delSlaveCmdData\<close>), and the error message asserts that it is a \<open>BeeID\<close>.
\<close>

lemma handleCmd_addSlave_duplicate_panics:
  "CmdType cmd = addSlaveCmd \<Longrightarrow> assert_addSlaveCmdData (CmdData cmd) = Some b \<Longrightarrow>
   b \<in> set (Slaves (beeColony bee)) \<Longrightarrow> localBee_handleCmd cmd bee = Panics"
  by (cases "CmdData cmd")
     (simp_all add: localBee_handleCmd_def assert_addSlaveCmdData_def assert_BeeID_def
        BeeColony_AddSlave_def)

lemma DelSlave_loop_None: "b \<notin> set ss \<Longrightarrow> DelSlave_loop b i ss = None"
  by (induction ss arbitrary: i) auto

lemma handleCmd_delSlave_unknown_panics:
  "CmdType cmd = delSlaveCmd \<Longrightarrow> assert_delSlaveCmdData (CmdData cmd) = Some b \<Longrightarrow>
   b \<notin> set (Slaves (beeColony bee)) \<Longrightarrow> localBee_handleCmd cmd bee = Panics"
  by (cases "CmdData cmd")
     (simp_all add: localBee_handleCmd_def assert_delSlaveCmdData_def assert_BeeID_def
        BeeColony_DelSlave_def DelSlave_loop_None)

text \<open>In the other cases the slave is appended, or removed, and the reply has no error.\<close>

lemma handleCmd_addSlave_new:
  "b \<notin> set (Slaves (beeColony bee)) \<Longrightarrow>
   localBee_handleCmd \<lparr>CmdType = addSlaveCmd, CmdData = Data_addSlaveCmdData b, ResCh = True\<rparr> bee =
     Returns (True, [\<lparr>Data = NilRes, Err = None\<rparr>],
       bee\<lparr>beeColony := (beeColony bee)\<lparr>Slaves := Slaves (beeColony bee) @ [b]\<rparr>\<rparr>)"
  by (simp add: localBee_handleCmd_def assert_addSlaveCmdData_def BeeColony_AddSlave_def
      ResCh_send_def)

text \<open>
  C8 (AddSlave of a slave that is in Slaves, and DelSlave of one that is not, reply
  with an error and leave Slaves unchanged). With the slave \<open>b\<close> in the colony,
  \<open>addSlaveCmd\<close> for \<open>b\<close> panics, and with no slave in the colony \<open>delSlaveCmd\<close> for
  \<open>b\<close> panics: no result is sent on the channel.
\<close>

theorem rejected_slave_command_panics:
  "localBee_handleCmd \<lparr>CmdType = addSlaveCmd, CmdData = Data_addSlaveCmdData b, ResCh = True\<rparr>
      \<lparr>beeColony = \<lparr>Master = m, Slaves = [b]\<rparr>, txBuf = []\<rparr> = Panics \<and>
   localBee_handleCmd \<lparr>CmdType = delSlaveCmd, CmdData = Data_delSlaveCmdData b, ResCh = True\<rparr>
      \<lparr>beeColony = \<lparr>Master = m, Slaves = []\<rparr>, txBuf = []\<rparr> = Panics"
  by (simp add: localBee_handleCmd_def assert_addSlaveCmdData_def assert_delSlaveCmdData_def
      assert_BeeID_def BeeColony_AddSlave_def BeeColony_DelSlave_def)

subsection \<open>Handling a message\<close>

lemma failing_handler_run:
  "failing_handler (snd (inMemoryState_BeginTx new_state)) =
     (RcvError ErrNoSuchKey,
      \<lparr>Name = ''s'', Dicts = [(''c'', \<lparr>DictName = ''c'', Dict = []\<rparr>)],
       tx = Some \<lparr>stage = [(''c'', 0)]\<rparr>,
       heap = [\<lparr>dict = ''c'',
                ops = [(''a'', \<lparr>T = Put, D = ''c'', K = ''a'', V = ''1''\<rparr>),
                       (''b'', \<lparr>T = Put, D = ''c'', K = ''b'', V = ''2''\<rparr>)]\<rparr>]\<rparr>)"
  by (simp add: failing_handler_def new_state_def inMemoryState_BeginTx_def
      inMemoryState_newTransaction_def inMemoryState_Dict_def inMemoryTx_Dict_def
      inMemoryState_inMemDict_def Dict_Put_def inMemStagedDict_Put_def inMemDict_Name_def)

lemma failing_handler_abort_state:
  "snd (inMemory_handleMsg True failing_handler new_state) =
     snd (failing_handler (snd (inMemoryState_BeginTx new_state)))"
  by (simp add: inMemory_handleMsg_def localBee_handleMsg_def localBee_recoverFromError_def
      failing_handler_run inMemoryState_AbortTx_def inMemoryTx_Abort_def)

text \<open>
  The claim C9 as it is written (after an error or a panic of the handler \<open>handleMsg\<close>
  calls \<open>AbortTx\<close>, so that no staged change is applied to the underlying dicts) fails in
  two places. A handler that calls \<open>panic(nil)\<close> panics, and \<open>handleMsg\<close> does not call
  \<open>AbortTx\<close>. And on the in-memory state, the Put that a handler staged before it returned
  an error is in the underlying dict after the next message, whose handler returns nil at
  once.
\<close>

theorem handleMsg_abort_counterexample:
  "fst (nil_panic_handler (snd (inMemoryState_BeginTx new_state))) = RcvPanic None \<and>
   Call_AbortTx \<notin> set (fst (inMemory_handleMsg True nil_panic_handler new_state)) \<and>
   fst (failing_handler (snd (inMemoryState_BeginTx new_state))) = RcvError ErrNoSuchKey \<and>
   underlying (snd (inMemory_handleMsg True failing_handler new_state)) ''c'' ''a'' = None \<and>
   fst (succeeding_handler
         (snd (inMemoryState_BeginTx (snd (inMemory_handleMsg True failing_handler new_state))))) =
     RcvNil \<and>
   underlying
     (snd (inMemory_handleMsg True succeeding_handler
            (snd (inMemory_handleMsg True failing_handler new_state)))) ''c'' ''a'' = Some ''1''"
  by (simp add: failing_handler_abort_state failing_handler_run)
     (simp add: inMemory_handleMsg_def localBee_handleMsg_def localBee_recoverFromError_def
        nil_panic_handler_def succeeding_handler_def new_state_def underlying_def
        inMemoryState_BeginTx_def inMemoryState_newTransaction_def inMemoryState_CommitTx_def
        inMemoryTx_Commit_def Commit_staged_def Commit_op_def Dict_Put_def inMemDict_Put_def)

text \<open>
  C9, amended: when the handler returns an error, or panics with a value that
  \<open>recover()\<close> returns as not nil, \<open>handleMsg\<close> calls \<open>AbortTx\<close> on the context the
  handler left and does not call \<open>CommitTx\<close>; when the handler panics and \<open>recover()\<close>
  returns nil, \<open>handleMsg\<close> calls neither and leaves the context as the handler left it;
  when the handler returns nil, \<open>handleMsg\<close> calls \<open>CommitTx\<close> and not \<open>AbortTx\<close>. So
  \<open>CommitTx\<close> is called exactly when the handler returns nil. Here \<open>res\<close> and \<open>c2\<close>
  are the result of the handler and the context it left.
\<close>

theorem handleMsg_commits_only_after_success:
  assumes "Rcv (if Transactional then BeginTx c else c) = (res, c2)"
  shows "(res \<noteq> RcvNil \<and> res \<noteq> RcvPanic None \<longrightarrow>
            Call_AbortTx \<in> set (fst (localBee_handleMsg Transactional BeginTx CommitTx AbortTx Rcv c)) \<and>
            Call_CommitTx \<notin> set (fst (localBee_handleMsg Transactional BeginTx CommitTx AbortTx Rcv c)) \<and>
            snd (localBee_handleMsg Transactional BeginTx CommitTx AbortTx Rcv c) = AbortTx c2) \<and>
         (res = RcvPanic None \<longrightarrow>
            Call_AbortTx \<notin> set (fst (localBee_handleMsg Transactional BeginTx CommitTx AbortTx Rcv c)) \<and>
            Call_CommitTx \<notin> set (fst (localBee_handleMsg Transactional BeginTx CommitTx AbortTx Rcv c)) \<and>
            snd (localBee_handleMsg Transactional BeginTx CommitTx AbortTx Rcv c) = c2) \<and>
         (res = RcvNil \<longrightarrow>
            Call_CommitTx \<in> set (fst (localBee_handleMsg Transactional BeginTx CommitTx AbortTx Rcv c)) \<and>
            Call_AbortTx \<notin> set (fst (localBee_handleMsg Transactional BeginTx CommitTx AbortTx Rcv c)) \<and>
            snd (localBee_handleMsg Transactional BeginTx CommitTx AbortTx Rcv c) = CommitTx c2) \<and>
         (Call_CommitTx \<in> set (fst (localBee_handleMsg Transactional BeginTx CommitTx AbortTx Rcv c))
            \<longleftrightarrow> res = RcvNil)"
proof (cases res)
  case RcvNil
  with assms show ?thesis
    by (cases Transactional) (simp_all add: localBee_handleMsg_def)
next
  case (RcvError e)
  with assms show ?thesis
    by (cases Transactional)
       (simp_all add: localBee_handleMsg_def localBee_recoverFromError_def)
next
  case (RcvPanic r)
  with assms show ?thesis
    by (cases Transactional; cases r)
       (simp_all add: localBee_handleMsg_def localBee_recoverFromError_def)
qed

theorem handleMsg_commits_only_after_success_witness:
  "failing_handler (if True then snd (inMemoryState_BeginTx new_state) else new_state) =
     (RcvError ErrNoSuchKey, snd (failing_handler (snd (inMemoryState_BeginTx new_state)))) \<and>
   RcvError ErrNoSuchKey \<noteq> RcvNil \<and> RcvError ErrNoSuchKey \<noteq> RcvPanic None \<and>
   Call_AbortTx \<in> set (fst (inMemory_handleMsg True failing_handler new_state)) \<and>
   Call_CommitTx \<notin> set (fst (inMemory_handleMsg True failing_handler new_state)) \<and>
   snd (inMemory_handleMsg True failing_handler new_state) =
     snd (inMemoryState_AbortTx (snd (failing_handler (snd (inMemoryState_BeginTx new_state)))))"
proof -
  have h: "failing_handler (if True then snd (inMemoryState_BeginTx new_state) else new_state) =
     (RcvError ErrNoSuchKey, snd (failing_handler (snd (inMemoryState_BeginTx new_state))))"
    by (simp add: failing_handler_run)
  show ?thesis
    using h
      handleMsg_commits_only_after_success
        [where Rcv = failing_handler and Transactional = True
          and BeginTx = "\<lambda>c. snd (inMemoryState_BeginTx c)" and c = new_state
          and res = "RcvError ErrNoSuchKey"
          and ?c2.0 = "snd (failing_handler (snd (inMemoryState_BeginTx new_state)))"
          and CommitTx = "\<lambda>c. snd (inMemoryState_CommitTx c)"
          and AbortTx = "\<lambda>c. snd (inMemoryState_AbortTx c)", OF h]
    by (simp add: inMemory_handleMsg_def)
qed

section \<open>Properties of the hive\<close>

text \<open>
  C10: \<open>ReplyTo\<close> returns an error and sends nothing when the sender of the message is
  zero; otherwise it returns nil and sends one message, to the sender of the message and
  with the sender zero.
\<close>

theorem ReplyTo_replies_to_sender:
  "hive_ReplyTo m replyData h =
     (if MsgFrom m = 0 then (Some ErrCannotReply, h)
      else (None,
            h\<lparr>dataCh := dataCh h @ [\<lparr>MsgData = replyData, MsgFrom = 0, MsgTo = MsgFrom m\<rparr>]\<rparr>))"
  by (simp add: hive_ReplyTo_def msg_NoReply_def msg_From_def hive_emitMsg_def newMsgFromData_def)

theorem ReplyTo_replies_to_sender_witness:
  "hive_ReplyTo \<lparr>MsgData = ''ping'', MsgFrom = 0, MsgTo = 7\<rparr> ''pong'' \<lparr>dataCh = []\<rparr> =
     (Some ErrCannotReply, \<lparr>dataCh = []\<rparr>) \<and>
   hive_ReplyTo \<lparr>MsgData = ''ping'', MsgFrom = 3, MsgTo = 7\<rparr> ''pong'' \<lparr>dataCh = []\<rparr> =
     (None, \<lparr>dataCh = [\<lparr>MsgData = ''pong'', MsgFrom = 0, MsgTo = 3\<rparr>]\<rparr>)"
  using
    ReplyTo_replies_to_sender
      [of "\<lparr>MsgData = ''ping'', MsgFrom = 0, MsgTo = 7\<rparr>" "''pong''" "\<lparr>dataCh = []\<rparr>"]
    ReplyTo_replies_to_sender
      [of "\<lparr>MsgData = ''ping'', MsgFrom = 3, MsgTo = 7\<rparr>" "''pong''" "\<lparr>dataCh = []\<rparr>"]
  by simp

end
